theory Spec2Isabelle
  imports Complex_Main "HOL-Library.Sublist" "HOL-Library.Multiset"
begin

section \<open>The alerting core of the DWLR groundwater dashboard (app.py)\<close>

text \<open>
  The script app.py runs top to bottom on every render. The part with decision logic is
  the station filter (line 27), the two notification functions (lines 30-70) and the
  section headed "Alerts System" (lines 72-93). Those are embedded here; the charts, the
  map, the statistics table, the forecast and the download button come after line 93 and
  read the data only.
\<close>

subsection \<open>float64 values, their comparison and the format \<open>.2f\<close>\<close>

text \<open>
  A pandas float column holds IEEE 754 doubles. Every finite double is a rational number,
  so a finite value is modelled by the rational it denotes (\<open>Finite 0\<close> is +0.0), with
  the negative zero, the two infinities and NaN as values of their own. The type is a
  superset of float64: what holds for every rational holds for every double.
\<close>

datatype float64 = Finite rat | NegZero | PosInf | NegInf | NaN

fun rank :: "float64 \<Rightarrow> int" where
  "rank NegInf = -1"
| "rank PosInf = 1"
| "rank _ = 0"

fun fval :: "float64 \<Rightarrow> rat" where
  "fval (Finite q) = q"
| "fval _ = 0"

text \<open>
  Python's \<open>a < b\<close> and \<open>a > b\<close> on floats: false as soon as one side is NaN, the order of
  the extended reals otherwise, with -0.0 equal to +0.0.
\<close>

definition float_less :: "float64 \<Rightarrow> float64 \<Rightarrow> bool" where
  "float_less a b \<longleftrightarrow>
     a \<noteq> NaN \<and> b \<noteq> NaN \<and> (rank a < rank b \<or> (rank a = rank b \<and> fval a < fval b))"

definition float_greater :: "float64 \<Rightarrow> float64 \<Rightarrow> bool" where
  "float_greater a b \<longleftrightarrow> float_less b a"

definition float_le :: "float64 \<Rightarrow> float64 \<Rightarrow> bool" where
  "float_le a b \<longleftrightarrow>
     a \<noteq> NaN \<and> b \<noteq> NaN \<and> (rank a < rank b \<or> (rank a = rank b \<and> fval a \<le> fval b))"

text \<open>Decimal digits of a natural number, as \<open>str\<close> prints them.\<close>

definition digit_char :: "nat \<Rightarrow> char" where
  "digit_char d = ''0123456789'' ! d"

function str_nat :: "nat \<Rightarrow> string" where
  "str_nat n = (if n < 10 then [digit_char n] else str_nat (n div 10) @ [digit_char (n mod 10)])"
  by pat_completeness auto
termination
  by (relation "measure id") auto

declare str_nat.simps [simp del]

text \<open>
  \<open>format(x, ".2f")\<close> rounds the exact value of the double to two decimals, ties to even
  (CPython's correctly rounded dtoa), keeps the sign of the double also when the digits
  round to zero, and prints the non-finite values as \<open>inf\<close>, \<open>-inf\<close> and \<open>nan\<close>.
\<close>

definition round_half_even :: "rat \<Rightarrow> int" where
  "round_half_even x =
     (let n = \<lfloor>x\<rfloor>; f = x - of_int n
      in if f < 1 / 2 then n else if 1 / 2 < f then n + 1 else if even n then n else n + 1)"

definition fixed2 :: "rat \<Rightarrow> string" where
  "fixed2 m =
     (let h = nat (round_half_even (m * 100))
      in str_nat (h div 100) @ ''.'' @ [digit_char (h mod 100 div 10), digit_char (h mod 10)])"

fun format_2f :: "float64 \<Rightarrow> string" where
  "format_2f (Finite q) = (if q < 0 then ''-'' else []) @ fixed2 \<bar>q\<bar>"
| "format_2f NegZero = ''-0.00''"
| "format_2f PosInf = ''inf''"
| "format_2f NegInf = ''-inf''"
| "format_2f NaN = ''nan''"

subsection \<open>Strings\<close>

text \<open>
  A Python \<open>str\<close> is modelled by its UTF-8 bytes. The four symbols of the source outside
  ASCII are U+26A0 U+FE0F (warning sign), U+2705 (check mark), U+274C (cross mark) and
  U+1F6A8 (police car light).
\<close>

definition warning_sign :: string where
  "warning_sign = [CHR 0xE2, CHR 0x9A, CHR 0xA0, CHR 0xEF, CHR 0xB8, CHR 0x8F]"

definition check_mark :: string where
  "check_mark = [CHR 0xE2, CHR 0x9C, CHR 0x85]"

definition cross_mark :: string where
  "cross_mark = [CHR 0xE2, CHR 0x9D, CHR 0x8C]"

definition police_light :: string where
  "police_light = [CHR 0xF0, CHR 0x9F, CHR 0x9A, CHR 0xA8]"

subsection \<open>Readings and the station filter\<close>

text \<open>
  One row of sample_dwlr.csv. The column \<open>datetime\<close> is parsed by \<open>parse_dates\<close> into
  datetime64[ns], a count of nanoseconds, modelled as \<open>int\<close>: every row of the file
  carries a timestamp that parses.
\<close>

record reading =
  station_id :: string
  datetime :: int
  water_level :: float64
  lat :: float64
  lon :: float64

type_synonym frame = "reading list"

text \<open>
  \<open>st.selectbox\<close> returns the option the user picked among \<open>stations\<close>, or \<open>None\<close> when
  there is no option. Line 27, \<open>df[df["station_id"] == selected_station]\<close>, keeps the rows
  of that station in the order of the file; no row equals \<open>None\<close>.
\<close>

definition filtered_df :: "frame \<Rightarrow> string option \<Rightarrow> frame" where
  "filtered_df df selected_station = filter (\<lambda>r. Some (station_id r) = selected_station) df"

subsection \<open>Exceptions, effects and the outside world\<close>

text \<open>
  A raised exception is its class name and its text (\<open>str(e)\<close>). The result of a piece of
  script is the list of the calls it made to the outside, in order, and either the
  exception that ended it (\<open>Inl\<close>) or its value (\<open>Inr\<close>).
\<close>

datatype py_exception = Raised (exc_class: string) (exc_text: string)

definition IndexError :: py_exception where
  "IndexError = Raised ''IndexError'' ''single positional indexer is out-of-bounds''"

record mime_text =
  mime_body :: string
  mime_subject :: string
  mime_from :: string
  mime_to :: string

record response =
  status_code :: nat
  response_text :: string

datatype event =
    St_subheader string
  | St_error string
  | St_warning string
  | St_success string
  | Call_send_email_alert string
  | Call_send_sms_alert string string
  | Smtp_connect string nat
  | Smtp_starttls
  | Smtp_login string string
  | Smtp_sendmail string string mime_text
  | Requests_post string "(string \<times> string) list" "(string \<times> string) list"
  | Print string

type_synonym 'a eff = "event list \<times> (py_exception + 'a)"

definition ret :: "'a \<Rightarrow> 'a eff" where
  "ret x = ([], Inr x)"

definition raise :: "py_exception \<Rightarrow> 'a eff" where
  "raise e = ([], Inl e)"

definition emit :: "event \<Rightarrow> unit eff" where
  "emit ev = ([ev], Inr ())"

text \<open>Sequencing: an exception of the first part ends the whole, the second part is not run.\<close>

definition bind_eff :: "'a eff \<Rightarrow> ('a \<Rightarrow> 'b eff) \<Rightarrow> 'b eff" where
  "bind_eff m f =
     (case m of
        (es, Inl e) \<Rightarrow> (es, Inl e)
      | (es, Inr x) \<Rightarrow> (case f x of (es', r) \<Rightarrow> (es @ es', r)))"

definition then_eff :: "unit eff \<Rightarrow> 'a eff \<Rightarrow> 'a eff" where
  "then_eff m n = bind_eff m (\<lambda>_. n)"

fun seq_eff :: "unit eff list \<Rightarrow> unit eff" where
  "seq_eff [] = ret ()"
| "seq_eff (m # ms) = then_eff m (seq_eff ms)"

text \<open>\<open>try: body except Exception as e: handler\<close>.\<close>

definition try_except :: "'a eff \<Rightarrow> (py_exception \<Rightarrow> 'a eff) \<Rightarrow> 'a eff" where
  "try_except body handler =
     (case body of
        (es, Inl e) \<Rightarrow> (case handler e of (es', r) \<Rightarrow> (es @ es', r))
      | (es, Inr x) \<Rightarrow> (es, Inr x))"

text \<open>
  What the mail relay and the SMS gateway do is not decided by the script: each step of
  the SMTP session returns or raises, and \<open>requests.post\<close> returns a response or raises.
  The exceptions are those of smtplib, of the socket layer and of requests, all derived
  from \<open>Exception\<close>.
\<close>

datatype post_outcome = Post_returns response | Post_raises py_exception

record world =
  connect_raises :: "py_exception option"
  starttls_raises :: "py_exception option"
  login_raises :: "py_exception option"
  sendmail_raises :: "py_exception option"
  post_result :: post_outcome

definition attempt :: "event \<Rightarrow> py_exception option \<Rightarrow> unit eff" where
  "attempt ev outcome = (case outcome of None \<Rightarrow> ([ev], Inr ()) | Some e \<Rightarrow> ([ev], Inl e))"

definition requests_post ::
  "world \<Rightarrow> string \<Rightarrow> (string \<times> string) list \<Rightarrow> (string \<times> string) list \<Rightarrow> response eff" where
  "requests_post w url data headers =
     (case post_result w of
        Post_returns r \<Rightarrow> ([Requests_post url data headers], Inr r)
      | Post_raises e \<Rightarrow> ([Requests_post url data headers], Inl e))"

subsection \<open>The two notification functions (lines 30-70)\<close>

text \<open>
  Building the message and the request is outside the \<open>try\<close> and raises nothing; all
  that talks to the outside is inside it. Leaving the \<open>with\<close> block closes the SMTP
  session, inside the \<open>try\<close> as well.
\<close>

definition send_email_alert :: "world \<Rightarrow> string \<Rightarrow> unit eff" where
  "send_email_alert w message =
     (let sender = ''your_email@gmail.com'';
          password = ''your_app_password'';
          receiver = ''receiver_email@gmail.com'';
          msg = \<lparr>mime_body = message, mime_subject = police_light @ '' DWLR Water Level Alert'',
                 mime_from = sender, mime_to = receiver\<rparr>
      in then_eff (emit (Call_send_email_alert message))
           (try_except
              (seq_eff
                 [attempt (Smtp_connect ''smtp.gmail.com'' 587) (connect_raises w),
                  attempt Smtp_starttls (starttls_raises w),
                  attempt (Smtp_login sender password) (login_raises w),
                  attempt (Smtp_sendmail sender receiver msg) (sendmail_raises w),
                  emit (Print (check_mark @ '' Email sent successfully''))])
              (\<lambda>e. emit (Print (cross_mark @ '' Email failed: '' @ exc_text e)))))"

definition send_sms_alert :: "world \<Rightarrow> string \<Rightarrow> string \<Rightarrow> unit eff" where
  "send_sms_alert w message phone_number =
     (let url = ''https://www.fast2sms.com/dev/bulkV2'';
          payload = [(''sender_id'', ''TXTIND''), (''message'', message),
                     (''route'', ''v3''), (''numbers'', phone_number)];
          headers = [(''authorization'', ''YOUR_FAST2SMS_API_KEY''),
                     (''Content-Type'', ''application/x-www-form-urlencoded'')]
      in then_eff (emit (Call_send_sms_alert message phone_number))
           (try_except
              (bind_eff (requests_post w url payload headers)
                 (\<lambda>response.
                    if status_code response = 200
                    then emit (Print (check_mark @ '' SMS sent successfully''))
                    else emit (Print (cross_mark @ '' SMS failed: '' @ response_text response))))
              (\<lambda>e. emit (Print (warning_sign @ '' Error sending SMS: '' @ exc_text e)))))"

subsection \<open>The section "Alerts System" (lines 72-93)\<close>

text \<open>
  \<open>sort_values("datetime")\<close> sorts with numpy's quicksort, which is not stable: the result
  is the rows in ascending order of \<open>datetime\<close>, and the order of rows with equal
  \<open>datetime\<close> is left to the sort. The sort is therefore a parameter \<open>srt\<close>, and
  \<open>sorts_by_datetime\<close> is all that is known of it.
\<close>

definition sorts_by_datetime :: "(frame \<Rightarrow> frame) \<Rightarrow> bool" where
  "sorts_by_datetime srt \<longleftrightarrow>
     (\<forall>rows. mset (srt rows) = mset rows \<and> sorted (map datetime (srt rows)))"

text \<open>\<open>.iloc[-1]\<close> raises IndexError on a frame without rows.\<close>

definition iloc_last :: "frame \<Rightarrow> reading eff" where
  "iloc_last rows = (if rows = [] then raise IndexError else ret (last rows))"

definition latest_level :: "(frame \<Rightarrow> frame) \<Rightarrow> frame \<Rightarrow> float64 eff" where
  "latest_level srt fdf = bind_eff (iloc_last (srt fdf)) (\<lambda>row. ret (water_level row))"

definition LOW_THRESHOLD :: float64 where
  "LOW_THRESHOLD = Finite 2"

definition HIGH_THRESHOLD :: float64 where
  "HIGH_THRESHOLD = Finite 10"

definition low_message :: "float64 \<Rightarrow> string" where
  "low_message level =
     warning_sign @ '' ALERT: Water level critically LOW ('' @ format_2f level @ '' m)''"

definition high_message :: "float64 \<Rightarrow> string" where
  "high_message level =
     warning_sign @ '' ALERT: Water level unusually HIGH ('' @ format_2f level @ '' m)''"

definition normal_message :: "float64 \<Rightarrow> string" where
  "normal_message level = check_mark @ '' Water level is Normal ('' @ format_2f level @ '' m)''"

definition alert_chain :: "world \<Rightarrow> float64 \<Rightarrow> unit eff" where
  "alert_chain w level =
     (if float_less level LOW_THRESHOLD then
        (let alert_message = low_message level
         in seq_eff [emit (St_error alert_message),
                     send_email_alert w alert_message,
                     send_sms_alert w alert_message ''+91XXXXXXXXXX''])
      else if float_greater level HIGH_THRESHOLD then
        (let alert_message = high_message level
         in seq_eff [emit (St_warning alert_message),
                     send_email_alert w alert_message,
                     send_sms_alert w alert_message ''+91XXXXXXXXXX''])
      else emit (St_success (normal_message level)))"

definition alerts_system :: "world \<Rightarrow> (frame \<Rightarrow> frame) \<Rightarrow> frame \<Rightarrow> unit eff" where
  "alerts_system w srt fdf =
     then_eff (emit (St_subheader (police_light @ '' Water Level Alerts'')))
       (bind_eff (latest_level srt fdf) (alert_chain w))"

definition dashboard :: "world \<Rightarrow> (frame \<Rightarrow> frame) \<Rightarrow> frame \<Rightarrow> string option \<Rightarrow> unit eff" where
  "dashboard w srt df selected_station = alerts_system w srt (filtered_df df selected_station)"

subsection \<open>What a run shows\<close>

text \<open>
  The specification names the three branches of the chain LOW, HIGH and NORMAL. A run
  shows its branch by the Streamlit call it makes: \<open>st.error\<close> in the first branch,
  \<open>st.warning\<close> in the second, \<open>st.success\<close> in the third.
\<close>

datatype alert_state = LOW | HIGH | NORMAL

fun shown :: "event \<Rightarrow> (alert_state \<times> string) option" where
  "shown (St_error m) = Some (LOW, m)"
| "shown (St_warning m) = Some (HIGH, m)"
| "shown (St_success m) = Some (NORMAL, m)"
| "shown _ = None"

definition alerts_shown :: "'a eff \<Rightarrow> (alert_state \<times> string) list" where
  "alerts_shown r = List.map_filter shown (fst r)"

definition states_shown :: "'a eff \<Rightarrow> alert_state list" where
  "states_shown r = map fst (alerts_shown r)"

fun is_channel_call :: "event \<Rightarrow> bool" where
  "is_channel_call (Call_send_email_alert _) = True"
| "is_channel_call (Call_send_sms_alert _ _) = True"
| "is_channel_call _ = False"

definition channel_calls :: "'a eff \<Rightarrow> event list" where
  "channel_calls r = filter is_channel_call (fst r)"

fun is_transport :: "event \<Rightarrow> bool" where
  "is_transport (Smtp_connect _ _) = True"
| "is_transport Smtp_starttls = True"
| "is_transport (Smtp_login _ _) = True"
| "is_transport (Smtp_sendmail _ _ _) = True"
| "is_transport (Requests_post _ _ _) = True"
| "is_transport _ = False"

definition raised_class :: "'a eff \<Rightarrow> string option" where
  "raised_class r = (case snd r of Inl e \<Rightarrow> Some (exc_class e) | Inr _ \<Rightarrow> None)"

text \<open>The POST that \<open>send_sms_alert\<close> issues for a message and a number.\<close>

definition sms_request :: "string \<Rightarrow> string \<Rightarrow> event" where
  "sms_request m p =
     Requests_post ''https://www.fast2sms.com/dev/bulkV2''
       [(''sender_id'', ''TXTIND''), (''message'', m), (''route'', ''v3''), (''numbers'', p)]
       [(''authorization'', ''YOUR_FAST2SMS_API_KEY''),
        (''Content-Type'', ''application/x-www-form-urlencoded'')]"

text \<open>An event that is neither a call of a notification function nor an alert on the page.\<close>

definition quiet :: "event \<Rightarrow> bool" where
  "quiet e \<longleftrightarrow> \<not> is_channel_call e \<and> shown e = None"

subsection \<open>The classification in the words of the specification\<close>

text \<open>
  Section 4.1: LOW if the level is below the low threshold, HIGH if it is above the high
  threshold, NORMAL otherwise.
\<close>

definition spec_evaluate :: "float64 \<Rightarrow> float64 \<Rightarrow> float64 \<Rightarrow> alert_state" where
  "spec_evaluate lo hi level =
     (if float_less level lo then LOW else if float_greater level hi then HIGH else NORMAL)"

subsection \<open>Sample inputs\<close>

definition relay_up :: world where
  "relay_up =
     \<lparr>connect_raises = None, starttls_raises = None, login_raises = None,
      sendmail_raises = None,
      post_result = Post_returns \<lparr>status_code = 200, response_text = ''ok''\<rparr>\<rparr>"

definition relay_down :: world where
  "relay_down =
     \<lparr>connect_raises = Some (Raised ''ConnectionRefusedError'' ''[Errno 111] Connection refused''),
      starttls_raises = None, login_raises = None, sendmail_raises = None,
      post_result = Post_raises (Raised ''ConnectionError'' ''Max retries exceeded'')\<rparr>"

definition s1_first :: reading where
  "s1_first =
     \<lparr>station_id = ''S1'', datetime = 1, water_level = Finite 5,
      lat = Finite 17, lon = Finite 78\<rparr>"

definition s1_second :: reading where
  "s1_second =
     \<lparr>station_id = ''S1'', datetime = 2, water_level = Finite (3 / 2),
      lat = Finite 17, lon = Finite 78\<rparr>"

definition s2_only :: reading where
  "s2_only =
     \<lparr>station_id = ''S2'', datetime = 3, water_level = Finite 12,
      lat = Finite 19, lon = Finite 73\<rparr>"

section \<open>Properties\<close>

subsection \<open>Sequencing and the shape of a notification\<close>

lemma then_eff_Inr: "snd m = Inr () \<Longrightarrow> then_eff m n = (fst m @ fst n, snd n)"
  by (cases m; cases n) (simp add: then_eff_def bind_eff_def)

lemma send_email_alert_shape:
  "\<exists>es. send_email_alert w m =
          (Call_send_email_alert m # Smtp_connect ''smtp.gmail.com'' 587 # es, Inr ()) \<and>
        (\<forall>e \<in> set es. quiet e)"
  by (cases "connect_raises w"; cases "starttls_raises w"; cases "login_raises w";
      cases "sendmail_raises w")
     (auto simp: quiet_def send_email_alert_def Let_def try_except_def attempt_def emit_def
        then_eff_def bind_eff_def ret_def)

lemma send_sms_alert_shape:
  "\<exists>es. send_sms_alert w m p = (Call_send_sms_alert m p # sms_request m p # es, Inr ()) \<and>
        (\<forall>e \<in> set es. quiet e)"
  by (cases "post_result w")
     (auto simp: quiet_def send_sms_alert_def sms_request_def Let_def requests_post_def
        try_except_def emit_def then_eff_def bind_eff_def)

lemma notify_seq:
  "\<exists>es1 es2. seq_eff [emit ev, send_email_alert w m, send_sms_alert w m p] =
       (ev # Call_send_email_alert m # Smtp_connect ''smtp.gmail.com'' 587 # es1 @
        Call_send_sms_alert m p # sms_request m p # es2, Inr ()) \<and>
     (\<forall>e \<in> set es1. quiet e) \<and> (\<forall>e \<in> set es2. quiet e)"
proof -
  obtain es1 where e1: "send_email_alert w m =
      (Call_send_email_alert m # Smtp_connect ''smtp.gmail.com'' 587 # es1, Inr ())"
    and q1: "\<forall>e \<in> set es1. quiet e"
    using send_email_alert_shape by blast
  obtain es2 where e2: "send_sms_alert w m p =
      (Call_send_sms_alert m p # sms_request m p # es2, Inr ())"
    and q2: "\<forall>e \<in> set es2. quiet e"
    using send_sms_alert_shape by blast
  have "seq_eff [emit ev, send_email_alert w m, send_sms_alert w m p] =
       (ev # Call_send_email_alert m # Smtp_connect ''smtp.gmail.com'' 587 # es1 @
        Call_send_sms_alert m p # sms_request m p # es2, Inr ())"
    by (simp add: e1 e2 then_eff_Inr emit_def ret_def)
  with q1 q2 show ?thesis by blast
qed

lemma alert_chain_low:
  assumes "float_less v LOW_THRESHOLD"
  shows "\<exists>es1 es2. alert_chain w v =
       (St_error (low_message v) # Call_send_email_alert (low_message v) #
        Smtp_connect ''smtp.gmail.com'' 587 # es1 @
        Call_send_sms_alert (low_message v) ''+91XXXXXXXXXX'' #
        sms_request (low_message v) ''+91XXXXXXXXXX'' # es2, Inr ()) \<and>
     (\<forall>e \<in> set es1. quiet e) \<and> (\<forall>e \<in> set es2. quiet e)"
  using assms notify_seq [of "St_error (low_message v)" w "low_message v" "''+91XXXXXXXXXX''"]
  by (simp add: alert_chain_def Let_def)

lemma low_not_high: "float_less v LOW_THRESHOLD \<Longrightarrow> \<not> float_greater v HIGH_THRESHOLD"
  by (cases v) (auto simp: float_less_def float_greater_def LOW_THRESHOLD_def HIGH_THRESHOLD_def)

lemma alert_chain_high:
  assumes "float_greater v HIGH_THRESHOLD"
  shows "\<exists>es1 es2. alert_chain w v =
       (St_warning (high_message v) # Call_send_email_alert (high_message v) #
        Smtp_connect ''smtp.gmail.com'' 587 # es1 @
        Call_send_sms_alert (high_message v) ''+91XXXXXXXXXX'' #
        sms_request (high_message v) ''+91XXXXXXXXXX'' # es2, Inr ()) \<and>
     (\<forall>e \<in> set es1. quiet e) \<and> (\<forall>e \<in> set es2. quiet e)"
proof -
  have "\<not> float_less v LOW_THRESHOLD"
    using assms low_not_high by blast
  then show ?thesis
    using assms
      notify_seq [of "St_warning (high_message v)" w "high_message v" "''+91XXXXXXXXXX''"]
    by (simp add: alert_chain_def Let_def)
qed

lemma alert_chain_normal:
  assumes "\<not> float_less v LOW_THRESHOLD" and "\<not> float_greater v HIGH_THRESHOLD"
  shows "alert_chain w v = ([St_success (normal_message v)], Inr ())"
  using assms by (simp add: alert_chain_def emit_def)

lemma between_normal:
  assumes "float_le LOW_THRESHOLD v" and "float_le v HIGH_THRESHOLD"
  shows "\<not> float_less v LOW_THRESHOLD \<and> \<not> float_greater v HIGH_THRESHOLD"
  using assms
  by (cases v) (auto simp: float_less_def float_greater_def float_le_def LOW_THRESHOLD_def
      HIGH_THRESHOLD_def)

lemma map_filter_quiet: "\<forall>e \<in> set es. quiet e \<Longrightarrow> List.map_filter shown es = []"
  by (induction es) (auto simp: quiet_def List.map_filter_simps)

lemma filter_quiet: "\<forall>e \<in> set es. quiet e \<Longrightarrow> filter is_channel_call es = []"
  by (induction es) (auto simp: quiet_def)

lemma map_filter_append:
  "List.map_filter f (xs @ ys) = List.map_filter f xs @ List.map_filter f ys"
  by (simp add: List.map_filter_def)

subsection \<open>What each branch of the chain does\<close>

lemma low_observed:
  assumes "float_less v LOW_THRESHOLD"
  shows "alerts_shown (alert_chain w v) = [(LOW, low_message v)]"
    and "channel_calls (alert_chain w v) =
           [Call_send_email_alert (low_message v),
            Call_send_sms_alert (low_message v) ''+91XXXXXXXXXX'']"
    and "snd (alert_chain w v) = Inr ()"
proof -
  obtain es1 es2 where eq: "alert_chain w v =
       (St_error (low_message v) # Call_send_email_alert (low_message v) #
        Smtp_connect ''smtp.gmail.com'' 587 # es1 @
        Call_send_sms_alert (low_message v) ''+91XXXXXXXXXX'' #
        sms_request (low_message v) ''+91XXXXXXXXXX'' # es2, Inr ())"
    and q1: "\<forall>e \<in> set es1. quiet e" and q2: "\<forall>e \<in> set es2. quiet e"
    using alert_chain_low [OF assms] by blast
  show "alerts_shown (alert_chain w v) = [(LOW, low_message v)]"
    by (simp add: eq alerts_shown_def List.map_filter_simps map_filter_append
        map_filter_quiet [OF q1] map_filter_quiet [OF q2] sms_request_def)
  show "channel_calls (alert_chain w v) =
           [Call_send_email_alert (low_message v),
            Call_send_sms_alert (low_message v) ''+91XXXXXXXXXX'']"
    by (simp add: eq channel_calls_def filter_quiet [OF q1] filter_quiet [OF q2]
        sms_request_def)
  show "snd (alert_chain w v) = Inr ()"
    by (simp add: eq)
qed

lemma high_observed:
  assumes "float_greater v HIGH_THRESHOLD"
  shows "alerts_shown (alert_chain w v) = [(HIGH, high_message v)]"
    and "channel_calls (alert_chain w v) =
           [Call_send_email_alert (high_message v),
            Call_send_sms_alert (high_message v) ''+91XXXXXXXXXX'']"
    and "snd (alert_chain w v) = Inr ()"
proof -
  obtain es1 es2 where eq: "alert_chain w v =
       (St_warning (high_message v) # Call_send_email_alert (high_message v) #
        Smtp_connect ''smtp.gmail.com'' 587 # es1 @
        Call_send_sms_alert (high_message v) ''+91XXXXXXXXXX'' #
        sms_request (high_message v) ''+91XXXXXXXXXX'' # es2, Inr ())"
    and q1: "\<forall>e \<in> set es1. quiet e" and q2: "\<forall>e \<in> set es2. quiet e"
    using alert_chain_high [OF assms] by blast
  show "alerts_shown (alert_chain w v) = [(HIGH, high_message v)]"
    by (simp add: eq alerts_shown_def List.map_filter_simps map_filter_append
        map_filter_quiet [OF q1] map_filter_quiet [OF q2] sms_request_def)
  show "channel_calls (alert_chain w v) =
           [Call_send_email_alert (high_message v),
            Call_send_sms_alert (high_message v) ''+91XXXXXXXXXX'']"
    by (simp add: eq channel_calls_def filter_quiet [OF q1] filter_quiet [OF q2]
        sms_request_def)
  show "snd (alert_chain w v) = Inr ()"
    by (simp add: eq)
qed

lemma normal_observed:
  assumes "\<not> float_less v LOW_THRESHOLD" and "\<not> float_greater v HIGH_THRESHOLD"
  shows "alerts_shown (alert_chain w v) = [(NORMAL, normal_message v)]"
    and "channel_calls (alert_chain w v) = []"
    and "snd (alert_chain w v) = Inr ()"
  by (simp_all add: alert_chain_normal [OF assms] alerts_shown_def channel_calls_def
      List.map_filter_simps)

subsection \<open>Threshold classification\<close>

text \<open>
  C1. For every level \<open>v\<close>, the chain shows LOW if \<open>v < 2.0\<close>, HIGH if \<open>v > 10.0\<close> and
  NORMAL if \<open>2.0 \<le> v \<le> 10.0\<close>, whatever the relay and the gateway do; the two boundary
  values 2.0 and 10.0 show NORMAL, the comparisons being strict.
\<close>

theorem threshold_classification:
  "(float_less v (Finite 2) \<longrightarrow> states_shown (alert_chain w v) = [LOW]) \<and>
   (float_greater v (Finite 10) \<longrightarrow> states_shown (alert_chain w v) = [HIGH]) \<and>
   (float_le (Finite 2) v \<and> float_le v (Finite 10) \<longrightarrow>
      states_shown (alert_chain w v) = [NORMAL]) \<and>
   states_shown (alert_chain w (Finite 2)) = [NORMAL] \<and>
   states_shown (alert_chain w (Finite 10)) = [NORMAL]"
proof (intro conjI impI)
  assume "float_less v (Finite 2)"
  then show "states_shown (alert_chain w v) = [LOW]"
    by (simp add: states_shown_def low_observed(1) LOW_THRESHOLD_def)
next
  assume "float_greater v (Finite 10)"
  then show "states_shown (alert_chain w v) = [HIGH]"
    by (simp add: states_shown_def high_observed(1) HIGH_THRESHOLD_def)
next
  assume "float_le (Finite 2) v \<and> float_le v (Finite 10)"
  then have "\<not> float_less v LOW_THRESHOLD \<and> \<not> float_greater v HIGH_THRESHOLD"
    using between_normal [of v] by (simp add: LOW_THRESHOLD_def HIGH_THRESHOLD_def)
  then show "states_shown (alert_chain w v) = [NORMAL]"
    by (simp add: states_shown_def normal_observed(1))
next
  have "\<not> float_less (Finite 2) LOW_THRESHOLD \<and> \<not> float_greater (Finite 2) HIGH_THRESHOLD"
    by (simp add: float_less_def float_greater_def LOW_THRESHOLD_def HIGH_THRESHOLD_def)
  then show "states_shown (alert_chain w (Finite 2)) = [NORMAL]"
    by (simp add: states_shown_def normal_observed(1))
next
  have "\<not> float_less (Finite 10) LOW_THRESHOLD \<and> \<not> float_greater (Finite 10) HIGH_THRESHOLD"
    by (simp add: float_less_def float_greater_def LOW_THRESHOLD_def HIGH_THRESHOLD_def)
  then show "states_shown (alert_chain w (Finite 10)) = [NORMAL]"
    by (simp add: states_shown_def normal_observed(1))
qed

theorem threshold_classification_witness:
  "float_less (Finite (3 / 2)) (Finite 2) \<and>
   states_shown (alert_chain relay_up (Finite (3 / 2))) = [LOW] \<and>
   float_greater PosInf (Finite 10) \<and>
   states_shown (alert_chain relay_up PosInf) = [HIGH] \<and>
   float_le (Finite 2) (Finite 7) \<and> float_le (Finite 7) (Finite 10) \<and>
   states_shown (alert_chain relay_up (Finite 7)) = [NORMAL]"
  using threshold_classification [of "Finite (3 / 2)" relay_up]
    threshold_classification [of PosInf relay_up]
    threshold_classification [of "Finite 7" relay_up]
  by (simp add: float_less_def float_greater_def float_le_def)

subsection \<open>The format of the level\<close>

lemma round_half_even_near: "\<bar>of_int (round_half_even x) - x\<bar> \<le> 1 / 2"
proof -
  have a: "of_int \<lfloor>x\<rfloor> \<le> x" and b: "x < of_int \<lfloor>x\<rfloor> + 1"
    by linarith+
  show ?thesis
    unfolding round_half_even_def Let_def
    using a b by (simp split: if_splits)
qed

lemma round_half_even_nonneg: "0 \<le> x \<Longrightarrow> 0 \<le> round_half_even x"
  unfolding round_half_even_def Let_def by (simp split: if_splits)

lemma fixed2_near:
  assumes "0 \<le> m"
  shows "\<bar>of_nat (nat (round_half_even (m * 100))) / 100 - m\<bar> \<le> 1 / 200"
proof -
  have "0 \<le> round_half_even (m * 100)"
    using assms by (simp add: round_half_even_nonneg)
  then have eq: "(of_nat (nat (round_half_even (m * 100))) :: rat) = of_int (round_half_even (m * 100))"
    by simp
  have "\<bar>of_int (round_half_even (m * 100)) - m * 100\<bar> \<le> 1 / 2"
    by (rule round_half_even_near)
  then show ?thesis
    unfolding eq by linarith
qed

lemma sublist_mid: "sublist v (a @ b @ v @ c)"
  using sublist_appendI [of v "a @ b" c] by simp

lemma messages_contain_level:
  "sublist (format_2f v) (low_message v)"
  "sublist (format_2f v) (high_message v)"
  "sublist (format_2f v) (normal_message v)"
  unfolding low_message_def high_message_def normal_message_def
  by (rule sublist_mid)+

subsection \<open>Dispatch on an anomaly\<close>

text \<open>
  C2. Whenever the level takes the LOW or the HIGH branch, the run calls
  \<open>send_email_alert\<close> once and then \<open>send_sms_alert\<close> once, both with the message shown on the
  page, and that message contains the level as \<open>.2f\<close> prints it. For a finite level that
  print is a sign, an integer part, a point and two digits, and the number printed is
  within half a hundredth of the level.
\<close>

theorem alert_dispatch:
  assumes "float_less v LOW_THRESHOLD \<or> float_greater v HIGH_THRESHOLD"
  shows "\<exists>m. channel_calls (alert_chain w v) =
              [Call_send_email_alert m, Call_send_sms_alert m ''+91XXXXXXXXXX''] \<and>
            map snd (alerts_shown (alert_chain w v)) = [m] \<and>
            sublist (format_2f v) m \<and>
            (\<forall>q. v = Finite q \<longrightarrow>
               (\<exists>h. format_2f v =
                      (if q < 0 then ''-'' else []) @ str_nat (h div 100) @ ''.'' @
                      [digit_char (h mod 100 div 10), digit_char (h mod 10)] \<and>
                    \<bar>of_nat h / 100 - \<bar>q\<bar>\<bar> \<le> 1 / 200))"
proof -
  have fmt: "\<forall>q. v = Finite q \<longrightarrow>
      (\<exists>h. format_2f v =
             (if q < 0 then ''-'' else []) @ str_nat (h div 100) @ ''.'' @
             [digit_char (h mod 100 div 10), digit_char (h mod 10)] \<and>
           \<bar>of_nat h / 100 - \<bar>q\<bar>\<bar> \<le> 1 / 200)"
  proof (intro allI impI)
    fix q assume v: "v = Finite q"
    let ?h = "nat (round_half_even (\<bar>q\<bar> * 100))"
    have "format_2f v =
             (if q < 0 then ''-'' else []) @ str_nat (?h div 100) @ ''.'' @
             [digit_char (?h mod 100 div 10), digit_char (?h mod 10)]"
      by (simp add: v fixed2_def Let_def)
    moreover have "\<bar>of_nat ?h / 100 - \<bar>q\<bar>\<bar> \<le> 1 / 200"
      by (rule fixed2_near) simp
    ultimately show "\<exists>h. format_2f v =
             (if q < 0 then ''-'' else []) @ str_nat (h div 100) @ ''.'' @
             [digit_char (h mod 100 div 10), digit_char (h mod 10)] \<and>
           \<bar>of_nat h / 100 - \<bar>q\<bar>\<bar> \<le> 1 / 200"
      by blast
  qed
  from assms show ?thesis
  proof
    assume low: "float_less v LOW_THRESHOLD"
    have c: "map snd (alerts_shown (alert_chain w v)) = [low_message v]"
      by (simp add: low_observed(1) [OF low])
    show ?thesis
      by (rule exI [of _ "low_message v"])
        (intro conjI low_observed(2) [OF low] c messages_contain_level(1) fmt)
  next
    assume high: "float_greater v HIGH_THRESHOLD"
    have c: "map snd (alerts_shown (alert_chain w v)) = [high_message v]"
      by (simp add: high_observed(1) [OF high])
    show ?thesis
      by (rule exI [of _ "high_message v"])
        (intro conjI high_observed(2) [OF high] c messages_contain_level(2) fmt)
  qed
qed

theorem alert_dispatch_witness:
  "float_less (Finite (3 / 2)) LOW_THRESHOLD \<and>
   (\<exists>m. channel_calls (alert_chain relay_down (Finite (3 / 2))) =
          [Call_send_email_alert m, Call_send_sms_alert m ''+91XXXXXXXXXX''] \<and>
        map snd (alerts_shown (alert_chain relay_down (Finite (3 / 2)))) = [m] \<and>
        sublist (format_2f (Finite (3 / 2))) m)"
proof -
  have low: "float_less (Finite (3 / 2)) LOW_THRESHOLD"
    by (simp add: float_less_def LOW_THRESHOLD_def)
  then have "float_less (Finite (3 / 2)) LOW_THRESHOLD \<or>
      float_greater (Finite (3 / 2)) HIGH_THRESHOLD"
    by (rule disjI1)
  from alert_dispatch [OF this, of relay_down] obtain m where
    "channel_calls (alert_chain relay_down (Finite (3 / 2))) =
          [Call_send_email_alert m, Call_send_sms_alert m ''+91XXXXXXXXXX'']"
    "map snd (alerts_shown (alert_chain relay_down (Finite (3 / 2)))) = [m]"
    "sublist (format_2f (Finite (3 / 2))) m"
    by (elim exE conjE)
  with low show ?thesis
    by (intro conjI exI [of _ m])
qed

subsection \<open>The notification functions return\<close>

lemma email_returns: "snd (send_email_alert w m) = Inr ()"
proof -
  obtain es where "send_email_alert w m =
      (Call_send_email_alert m # Smtp_connect ''smtp.gmail.com'' 587 # es, Inr ())"
    using send_email_alert_shape by blast
  then show ?thesis by simp
qed

lemma sms_returns: "snd (send_sms_alert w m p) = Inr ()"
proof -
  obtain es where "send_sms_alert w m p =
      (Call_send_sms_alert m p # sms_request m p # es, Inr ())"
    using send_sms_alert_shape by blast
  then show ?thesis by simp
qed

lemma anomaly_shape:
  assumes "float_less v LOW_THRESHOLD \<or> float_greater v HIGH_THRESHOLD"
  shows "\<exists>ev m es1 es2. alert_chain w v =
       (ev # Call_send_email_alert m # Smtp_connect ''smtp.gmail.com'' 587 # es1 @
        Call_send_sms_alert m ''+91XXXXXXXXXX'' # sms_request m ''+91XXXXXXXXXX'' # es2,
        Inr ()) \<and>
     \<not> is_channel_call ev \<and> (\<forall>e \<in> set es1. quiet e) \<and> (\<forall>e \<in> set es2. quiet e)"
  using assms
proof
  assume "float_less v LOW_THRESHOLD"
  from alert_chain_low [OF this, of w] obtain es1 es2 where
    "alert_chain w v =
       (St_error (low_message v) # Call_send_email_alert (low_message v) #
        Smtp_connect ''smtp.gmail.com'' 587 # es1 @
        Call_send_sms_alert (low_message v) ''+91XXXXXXXXXX'' #
        sms_request (low_message v) ''+91XXXXXXXXXX'' # es2, Inr ())"
    "\<forall>e \<in> set es1. quiet e" "\<forall>e \<in> set es2. quiet e"
    by blast
  moreover have "\<not> is_channel_call (St_error (low_message v))"
    by simp
  ultimately show ?thesis
    by blast
next
  assume "float_greater v HIGH_THRESHOLD"
  from alert_chain_high [OF this, of w] obtain es1 es2 where
    "alert_chain w v =
       (St_warning (high_message v) # Call_send_email_alert (high_message v) #
        Smtp_connect ''smtp.gmail.com'' 587 # es1 @
        Call_send_sms_alert (high_message v) ''+91XXXXXXXXXX'' #
        sms_request (high_message v) ''+91XXXXXXXXXX'' # es2, Inr ())"
    "\<forall>e \<in> set es1. quiet e" "\<forall>e \<in> set es2. quiet e"
    by blast
  moreover have "\<not> is_channel_call (St_warning (high_message v))"
    by simp
  ultimately show ?thesis
    by blast
qed

subsection \<open>No notification on a normal level\<close>

lemma shown_normal_only:
  assumes "states_shown (alert_chain w v) = [NORMAL]"
  shows "\<not> float_less v LOW_THRESHOLD \<and> \<not> float_greater v HIGH_THRESHOLD"
proof (intro conjI notI)
  assume "float_less v LOW_THRESHOLD"
  then have "states_shown (alert_chain w v) = [LOW]"
    by (simp add: states_shown_def low_observed(1))
  with assms show False by simp
next
  assume "float_greater v HIGH_THRESHOLD"
  then have "states_shown (alert_chain w v) = [HIGH]"
    by (simp add: states_shown_def high_observed(1))
  with assms show False by simp
qed

text \<open>
  C3. Whenever the level takes the NORMAL branch, and so whenever \<open>2.0 \<le> v \<le> 10.0\<close>, the
  run consists of the one call \<open>st.success\<close>: neither notification function is called and
  nothing is sent to the relay or to the gateway.
\<close>

theorem normal_sends_nothing:
  assumes "(float_le LOW_THRESHOLD v \<and> float_le v HIGH_THRESHOLD) \<or>
           states_shown (alert_chain w v) = [NORMAL]"
  shows "alert_chain w v = ([St_success (normal_message v)], Inr ()) \<and>
         channel_calls (alert_chain w v) = [] \<and>
         filter is_transport (fst (alert_chain w v)) = []"
proof -
  from assms have n: "\<not> float_less v LOW_THRESHOLD \<and> \<not> float_greater v HIGH_THRESHOLD"
  proof
    assume "float_le LOW_THRESHOLD v \<and> float_le v HIGH_THRESHOLD"
    then show ?thesis by (simp add: between_normal)
  next
    assume "states_shown (alert_chain w v) = [NORMAL]"
    then show ?thesis by (rule shown_normal_only)
  qed
  then have "alert_chain w v = ([St_success (normal_message v)], Inr ())"
    by (simp add: alert_chain_normal)
  then show ?thesis
    by (simp add: channel_calls_def)
qed

theorem normal_sends_nothing_witness:
  "float_le LOW_THRESHOLD (Finite 7) \<and> float_le (Finite 7) HIGH_THRESHOLD \<and>
   alert_chain relay_up (Finite 7) = ([St_success (normal_message (Finite 7))], Inr ()) \<and>
   channel_calls (alert_chain relay_up (Finite 7)) = [] \<and>
   filter is_transport (fst (alert_chain relay_up (Finite 7))) = []"
proof -
  have h: "float_le LOW_THRESHOLD (Finite 7) \<and> float_le (Finite 7) HIGH_THRESHOLD"
    by (simp add: float_le_def LOW_THRESHOLD_def HIGH_THRESHOLD_def)
  then have "(float_le LOW_THRESHOLD (Finite 7) \<and> float_le (Finite 7) HIGH_THRESHOLD) \<or>
      states_shown (alert_chain relay_up (Finite 7)) = [NORMAL]"
    by (rule disjI1)
  from normal_sends_nothing [OF this]
  show ?thesis
    by (rule conjI [OF conjunct1 [OF h] conjI [OF conjunct2 [OF h]]])
qed

subsection \<open>Delivery failures\<close>

text \<open>
  C5. Whatever the relay and the gateway do, each step raising or not, the two
  notification functions return without an exception, so an alert run ends without one
  too, with the SMTP connection attempted and the POST to the gateway issued: a failure
  of one channel does not keep the other from being tried.
\<close>

theorem delivery_failures_contained:
  "snd (send_email_alert w m) = Inr () \<and>
   snd (send_sms_alert w m p) = Inr () \<and>
   (float_less v LOW_THRESHOLD \<or> float_greater v HIGH_THRESHOLD \<longrightarrow>
      snd (alert_chain w v) = Inr () \<and>
      Smtp_connect ''smtp.gmail.com'' 587 \<in> set (fst (alert_chain w v)) \<and>
      (\<exists>a. sms_request a ''+91XXXXXXXXXX'' \<in> set (fst (alert_chain w v))))"
proof -
  have 1: "snd (send_email_alert w m) = Inr ()"
    by (rule email_returns)
  have 2: "snd (send_sms_alert w m p) = Inr ()"
    by (rule sms_returns)
  have 3: "snd (alert_chain w v) = Inr () \<and>
      Smtp_connect ''smtp.gmail.com'' 587 \<in> set (fst (alert_chain w v)) \<and>
      (\<exists>a. sms_request a ''+91XXXXXXXXXX'' \<in> set (fst (alert_chain w v)))"
    if h: "float_less v LOW_THRESHOLD \<or> float_greater v HIGH_THRESHOLD"
  proof -
    from anomaly_shape [OF h, of w] obtain ev a es1 es2 where eq: "alert_chain w v =
       (ev # Call_send_email_alert a # Smtp_connect ''smtp.gmail.com'' 587 # es1 @
        Call_send_sms_alert a ''+91XXXXXXXXXX'' # sms_request a ''+91XXXXXXXXXX'' # es2,
        Inr ())"
      by blast
    have a: "snd (alert_chain w v) = Inr ()"
      by (simp add: eq)
    have b: "Smtp_connect ''smtp.gmail.com'' 587 \<in> set (fst (alert_chain w v))"
      by (simp add: eq)
    have c: "sms_request a ''+91XXXXXXXXXX'' \<in> set (fst (alert_chain w v))"
      by (simp add: eq)
    show ?thesis
      by (rule conjI [OF a conjI [OF b]], rule exI, rule c)
  qed
  show ?thesis
    by (rule conjI [OF 1 conjI [OF 2 impI [OF 3]]])
qed

theorem delivery_failures_contained_witness:
  "float_less (Finite 1) LOW_THRESHOLD \<and>
   connect_raises relay_down \<noteq> None \<and>
   post_result relay_down = Post_raises (Raised ''ConnectionError'' ''Max retries exceeded'') \<and>
   snd (send_email_alert relay_down ''m'') = Inr () \<and>
   snd (send_sms_alert relay_down ''m'' ''p'') = Inr () \<and>
   snd (alert_chain relay_down (Finite 1)) = Inr () \<and>
   Smtp_connect ''smtp.gmail.com'' 587 \<in> set (fst (alert_chain relay_down (Finite 1))) \<and>
   (\<exists>a. sms_request a ''+91XXXXXXXXXX'' \<in> set (fst (alert_chain relay_down (Finite 1))))"
proof -
  have low: "float_less (Finite 1) LOW_THRESHOLD"
    by (simp add: float_less_def LOW_THRESHOLD_def)
  have w: "connect_raises relay_down \<noteq> None"
    "post_result relay_down = Post_raises (Raised ''ConnectionError'' ''Max retries exceeded'')"
    by (simp_all add: relay_down_def)
  note t = delivery_failures_contained [of relay_down "''m''" "''p''" "Finite 1"]
  have a: "snd (send_email_alert relay_down ''m'') = Inr ()"
    by (rule conjunct1 [OF t])
  have b: "snd (send_sms_alert relay_down ''m'' ''p'') = Inr ()"
    by (rule conjunct1 [OF conjunct2 [OF t]])
  have c: "snd (alert_chain relay_down (Finite 1)) = Inr () \<and>
      Smtp_connect ''smtp.gmail.com'' 587 \<in> set (fst (alert_chain relay_down (Finite 1))) \<and>
      (\<exists>a. sms_request a ''+91XXXXXXXXXX'' \<in> set (fst (alert_chain relay_down (Finite 1))))"
    by (rule mp [OF conjunct2 [OF conjunct2 [OF t]] disjI1 [OF low]])
  show ?thesis
    by (rule conjI [OF low conjI [OF w(1) conjI [OF w(2) conjI [OF a conjI [OF b c]]]]])
qed

subsection \<open>Sorting, the last row and the whole section\<close>

lemma sort_key_sorts: "sorts_by_datetime (sort_key datetime)"
  by (simp add: sorts_by_datetime_def)

lemma sorts_set: "sorts_by_datetime srt \<Longrightarrow> set (srt rows) = set rows"
  unfolding sorts_by_datetime_def by (metis mset_eq_setD)

lemma sorts_empty_iff: "sorts_by_datetime srt \<Longrightarrow> srt rows = [] \<longleftrightarrow> rows = []"
  using sorts_set [of srt rows] by auto

lemma sorted_map_last: "sorted (map f xs) \<Longrightarrow> x \<in> set xs \<Longrightarrow> f x \<le> f (last xs)"
  by (induction xs) auto

lemma sorts_last_max:
  assumes "sorts_by_datetime srt" and "rows \<noteq> []"
  shows "last (srt rows) \<in> set rows"
    and "\<forall>r \<in> set rows. datetime r \<le> datetime (last (srt rows))"
proof -
  have ne: "srt rows \<noteq> []"
    using assms by (simp add: sorts_empty_iff)
  then have "last (srt rows) \<in> set (srt rows)"
    by (rule last_in_set)
  then show "last (srt rows) \<in> set rows"
    using assms(1) by (simp add: sorts_set)
  have "sorted (map datetime (srt rows))"
    using assms(1) by (simp add: sorts_by_datetime_def)
  then show "\<forall>r \<in> set rows. datetime r \<le> datetime (last (srt rows))"
    using sorted_map_last [of datetime "srt rows"] sorts_set [OF assms(1), of rows] by blast
qed

lemma latest_level_empty: "srt fdf = [] \<Longrightarrow> latest_level srt fdf = ([], Inl IndexError)"
  by (simp add: latest_level_def iloc_last_def raise_def bind_eff_def)

lemma latest_level_last:
  "srt fdf \<noteq> [] \<Longrightarrow> latest_level srt fdf = ([], Inr (water_level (last (srt fdf))))"
  by (simp add: latest_level_def iloc_last_def ret_def bind_eff_def)

lemma alerts_system_raises:
  "latest_level srt fdf = ([], Inl e) \<Longrightarrow>
   alerts_system w srt fdf = ([St_subheader (police_light @ '' Water Level Alerts'')], Inl e)"
  by (simp add: alerts_system_def then_eff_def bind_eff_def emit_def)

lemma alerts_system_level:
  "latest_level srt fdf = ([], Inr v) \<Longrightarrow>
   alerts_system w srt fdf =
     (St_subheader (police_light @ '' Water Level Alerts'') # fst (alert_chain w v),
      snd (alert_chain w v))"
  by (cases "alert_chain w v") (simp add: alerts_system_def then_eff_def bind_eff_def emit_def)

subsection \<open>A station without readings\<close>

text \<open>
  C4, as the code has it. When the selected station has no row, \<open>.iloc[-1]\<close> raises
  IndexError; nothing catches it, so it ends the run, after the subheader and before any
  alert is shown, any notification function is called or anything is sent.
\<close>

theorem empty_station_raises_index_error:
  assumes "sorts_by_datetime srt" and "filtered_df df selected_station = []"
  shows "raised_class (dashboard w srt df selected_station) = Some ''IndexError'' \<and>
         channel_calls (dashboard w srt df selected_station) = [] \<and>
         filter is_transport (fst (dashboard w srt df selected_station)) = [] \<and>
         alerts_shown (dashboard w srt df selected_station) = []"
proof -
  have "srt (filtered_df df selected_station) = []"
    using assms by (simp add: sorts_empty_iff)
  then have "dashboard w srt df selected_station =
      ([St_subheader (police_light @ '' Water Level Alerts'')], Inl IndexError)"
    unfolding dashboard_def by (intro alerts_system_raises latest_level_empty)
  then show ?thesis
    by (simp add: raised_class_def IndexError_def channel_calls_def alerts_shown_def
        List.map_filter_simps)
qed

theorem empty_station_raises_index_error_witness:
  "sorts_by_datetime (sort_key datetime) \<and>
   filtered_df [] None = [] \<and>
   raised_class (dashboard relay_up (sort_key datetime) [] None) = Some ''IndexError'' \<and>
   channel_calls (dashboard relay_up (sort_key datetime) [] None) = [] \<and>
   filter is_transport (fst (dashboard relay_up (sort_key datetime) [] None)) = [] \<and>
   alerts_shown (dashboard relay_up (sort_key datetime) [] None) = []"
proof -
  have e: "filtered_df [] None = []"
    by (simp add: filtered_df_def)
  show ?thesis
    by (rule conjI [OF sort_key_sorts conjI [OF e
          empty_station_raises_index_error [OF sort_key_sorts e]]])
qed

text \<open>
  C4, as the claim states it, fails: on the empty file, where the select box has no option
  and returns \<open>None\<close>, the exception that ends the run is not an EmptySeriesError.
\<close>

theorem empty_station_not_empty_series_error:
  "raised_class (dashboard relay_up (sort_key datetime) [] None) \<noteq> Some ''EmptySeriesError''"
proof -
  have "dashboard relay_up (sort_key datetime) [] None =
      ([St_subheader (police_light @ '' Water Level Alerts'')], Inl IndexError)"
    unfolding dashboard_def
    by (intro alerts_system_raises latest_level_empty) (simp add: filtered_df_def)
  then show ?thesis
    by (simp add: raised_class_def IndexError_def)
qed

subsection \<open>The latest reading\<close>

text \<open>
  C6. For every station with at least one row, the level that the chain of lines 80-93
  receives is the \<open>water_level\<close> of a row of that station whose \<open>datetime\<close> is the
  greatest among the rows of that station.
\<close>

theorem latest_reading_selected:
  assumes "sorts_by_datetime srt" and "filtered_df df selected_station \<noteq> []"
  shows "\<exists>r \<in> set df.
           Some (station_id r) = selected_station \<and>
           (\<forall>r' \<in> set df. Some (station_id r') = selected_station \<longrightarrow>
              datetime r' \<le> datetime r) \<and>
           latest_level srt (filtered_df df selected_station) = ([], Inr (water_level r)) \<and>
           dashboard w srt df selected_station =
             (St_subheader (police_light @ '' Water Level Alerts'') #
              fst (alert_chain w (water_level r)), snd (alert_chain w (water_level r)))"
proof -
  let ?fdf = "filtered_df df selected_station"
  let ?r = "last (srt ?fdf)"
  have mem: "?r \<in> set ?fdf"
    using assms by (rule sorts_last_max(1))
  then have 1: "?r \<in> set df" and 2: "Some (station_id ?r) = selected_station"
    by (simp_all add: filtered_df_def)
  have "\<forall>r' \<in> set ?fdf. datetime r' \<le> datetime ?r"
    using assms by (rule sorts_last_max(2))
  then have 3: "\<forall>r' \<in> set df. Some (station_id r') = selected_station \<longrightarrow>
      datetime r' \<le> datetime ?r"
    by (simp add: filtered_df_def)
  have "srt ?fdf \<noteq> []"
    using assms by (simp add: sorts_empty_iff)
  then have 4: "latest_level srt ?fdf = ([], Inr (water_level ?r))"
    by (rule latest_level_last)
  then have 5: "dashboard w srt df selected_station =
             (St_subheader (police_light @ '' Water Level Alerts'') #
              fst (alert_chain w (water_level ?r)), snd (alert_chain w (water_level ?r)))"
    unfolding dashboard_def by (rule alerts_system_level)
  show ?thesis
    by (rule bexI [OF _ 1]) (intro conjI 2 3 4 5)
qed

theorem latest_reading_selected_witness:
  "sorts_by_datetime (sort_key datetime) \<and>
   filtered_df [s1_second, s2_only, s1_first] (Some ''S1'') \<noteq> [] \<and>
   (\<exists>r \<in> set [s1_second, s2_only, s1_first].
      Some (station_id r) = Some ''S1'' \<and>
      (\<forall>r' \<in> set [s1_second, s2_only, s1_first]. Some (station_id r') = Some ''S1'' \<longrightarrow>
         datetime r' \<le> datetime r) \<and>
      latest_level (sort_key datetime) (filtered_df [s1_second, s2_only, s1_first] (Some ''S1'')) =
        ([], Inr (water_level r)) \<and>
      dashboard relay_up (sort_key datetime) [s1_second, s2_only, s1_first] (Some ''S1'') =
        (St_subheader (police_light @ '' Water Level Alerts'') #
         fst (alert_chain relay_up (water_level r)), snd (alert_chain relay_up (water_level r))))"
proof -
  have ne: "filtered_df [s1_second, s2_only, s1_first] (Some ''S1'') \<noteq> []"
    by (simp add: filtered_df_def s1_second_def)
  show ?thesis
    by (rule conjI [OF sort_key_sorts conjI [OF ne
          latest_reading_selected [OF sort_key_sorts ne]]])
qed

subsection \<open>Purity of the classification\<close>

text \<open>
  C7. The state a run shows is the function \<open>spec_evaluate\<close> of the level and the two
  thresholds, and nothing else: it is the same whatever the relay and the gateway do,
  and two runs whose latest levels are equal show the same state and the same message,
  whatever their data and their sort are.
\<close>

theorem classification_is_pure:
  "states_shown (alert_chain w v) = [spec_evaluate LOW_THRESHOLD HIGH_THRESHOLD v] \<and>
   alerts_shown (alert_chain w v) = alerts_shown (alert_chain w' v) \<and>
   (latest_level srt fdf = ([], Inr v) \<and> latest_level srt' fdf' = ([], Inr v) \<longrightarrow>
      alerts_shown (alerts_system w srt fdf) = alerts_shown (alerts_system w' srt' fdf') \<and>
      states_shown (alerts_system w srt fdf) = [spec_evaluate LOW_THRESHOLD HIGH_THRESHOLD v])"
proof -
  have shown: "alerts_shown (alert_chain u v) =
      [(spec_evaluate LOW_THRESHOLD HIGH_THRESHOLD v,
        if float_less v LOW_THRESHOLD then low_message v
        else if float_greater v HIGH_THRESHOLD then high_message v
        else normal_message v)]" for u
  proof (cases "float_less v LOW_THRESHOLD")
    case True
    then show ?thesis
      by (simp add: low_observed(1) spec_evaluate_def)
  next
    case low: False
    show ?thesis
    proof (cases "float_greater v HIGH_THRESHOLD")
      case True
      with low show ?thesis
        by (simp add: high_observed(1) spec_evaluate_def)
    next
      case False
      with low show ?thesis
        by (simp add: normal_observed(1) spec_evaluate_def)
    qed
  qed
  have 1: "states_shown (alert_chain w v) = [spec_evaluate LOW_THRESHOLD HIGH_THRESHOLD v]"
    by (simp add: states_shown_def shown)
  have 2: "alerts_shown (alert_chain w v) = alerts_shown (alert_chain w' v)"
    by (simp add: shown)
  have sys: "alerts_shown (alerts_system u s f) = alerts_shown (alert_chain u v)"
    if "latest_level s f = ([], Inr v)" for u s f
    by (simp add: alerts_system_level [OF that] alerts_shown_def List.map_filter_simps)
  have 3: "alerts_shown (alerts_system w srt fdf) = alerts_shown (alerts_system w' srt' fdf') \<and>
      states_shown (alerts_system w srt fdf) = [spec_evaluate LOW_THRESHOLD HIGH_THRESHOLD v]"
    if h: "latest_level srt fdf = ([], Inr v) \<and> latest_level srt' fdf' = ([], Inr v)"
  proof -
    have a: "alerts_shown (alerts_system w srt fdf) = alerts_shown (alert_chain w v)"
      using h by (simp add: sys)
    have b: "alerts_shown (alerts_system w' srt' fdf') = alerts_shown (alert_chain w' v)"
      using h by (simp add: sys)
    show ?thesis
      using 1 by (simp add: a b shown states_shown_def)
  qed
  show ?thesis
    by (rule conjI [OF 1 conjI [OF 2 impI [OF 3]]])
qed

theorem classification_is_pure_witness:
  "latest_level (sort_key datetime) [s1_first, s1_second] = ([], Inr (Finite (3 / 2))) \<and>
   latest_level (sort_key datetime) [s1_second] = ([], Inr (Finite (3 / 2))) \<and>
   alerts_shown (alerts_system relay_up (sort_key datetime) [s1_first, s1_second]) =
     alerts_shown (alerts_system relay_down (sort_key datetime) [s1_second]) \<and>
   states_shown (alerts_system relay_up (sort_key datetime) [s1_first, s1_second]) =
     [spec_evaluate LOW_THRESHOLD HIGH_THRESHOLD (Finite (3 / 2))]"
proof -
  have a: "latest_level (sort_key datetime) [s1_first, s1_second] = ([], Inr (Finite (3 / 2)))"
    by (simp add: latest_level_def iloc_last_def ret_def bind_eff_def s1_first_def s1_second_def)
  have b: "latest_level (sort_key datetime) [s1_second] = ([], Inr (Finite (3 / 2)))"
    by (simp add: latest_level_def iloc_last_def ret_def bind_eff_def s1_second_def)
  note t = classification_is_pure [of relay_up "Finite (3 / 2)" relay_down "sort_key datetime"
      "[s1_first, s1_second]" "sort_key datetime" "[s1_second]"]
  show ?thesis
    by (rule conjI [OF a conjI [OF b mp [OF conjunct2 [OF conjunct2 [OF t]] conjI [OF a b]]]])
qed

subsection \<open>End to end\<close>

lemma format_one_and_a_half: "format_2f (Finite (3 / 2)) = ''1.50''"
  by (simp add: fixed2_def round_half_even_def str_nat.simps digit_char_def)

text \<open>
  C8. For a file in which the rows of station S1 are a reading of 5.0 and a later reading
  of 1.5, the latest level is 1.5, the run shows LOW with a message that contains
  \<open>1.50\<close>, and each notification function is called once, with that message.
\<close>

theorem end_to_end_low:
  assumes "sorts_by_datetime srt"
    and "filtered_df df (Some ''S1'') = [r1, r2]"
    and "datetime r1 < datetime r2"
    and "water_level r1 = Finite 5"
    and "water_level r2 = Finite (3 / 2)"
  shows "latest_level srt (filtered_df df (Some ''S1'')) = ([], Inr (Finite (3 / 2))) \<and>
         states_shown (dashboard w srt df (Some ''S1'')) = [LOW] \<and>
         (\<exists>m. alerts_shown (dashboard w srt df (Some ''S1'')) = [(LOW, m)] \<and>
              sublist ''1.50'' m \<and>
              channel_calls (dashboard w srt df (Some ''S1'')) =
                [Call_send_email_alert m, Call_send_sms_alert m ''+91XXXXXXXXXX''])"
proof -
  let ?fdf = "filtered_df df (Some ''S1'')"
  let ?v = "Finite (3 / 2)"
  have ne: "?fdf \<noteq> []"
    by (simp add: assms(2))
  have "last (srt ?fdf) \<in> set ?fdf"
    using assms(1) ne by (rule sorts_last_max(1))
  moreover have "\<forall>r \<in> set ?fdf. datetime r \<le> datetime (last (srt ?fdf))"
    using assms(1) ne by (rule sorts_last_max(2))
  ultimately have "last (srt ?fdf) = r2"
    using assms(3) by (auto simp: assms(2))
  moreover have "srt ?fdf \<noteq> []"
    using assms(1) ne by (simp add: sorts_empty_iff)
  ultimately have lvl: "latest_level srt ?fdf = ([], Inr ?v)"
    by (simp add: latest_level_last assms(5))
  have run: "dashboard w srt df (Some ''S1'') =
      (St_subheader (police_light @ '' Water Level Alerts'') # fst (alert_chain w ?v),
       snd (alert_chain w ?v))"
    unfolding dashboard_def using lvl by (rule alerts_system_level)
  have low: "float_less ?v LOW_THRESHOLD"
    by (simp add: float_less_def LOW_THRESHOLD_def)
  have sh: "alerts_shown (dashboard w srt df (Some ''S1'')) = [(LOW, low_message ?v)]"
    by (simp add: run alerts_shown_def List.map_filter_simps
        low_observed(1) [OF low, of w, unfolded alerts_shown_def])
  have st: "states_shown (dashboard w srt df (Some ''S1'')) = [LOW]"
    by (simp add: states_shown_def sh)
  have ch: "channel_calls (dashboard w srt df (Some ''S1'')) =
      [Call_send_email_alert (low_message ?v),
       Call_send_sms_alert (low_message ?v) ''+91XXXXXXXXXX'']"
    by (simp add: run channel_calls_def
        low_observed(2) [OF low, of w, unfolded channel_calls_def])
  have sub: "sublist ''1.50'' (low_message ?v)"
    using messages_contain_level(1) [of ?v] by (simp only: format_one_and_a_half)
  show ?thesis
    by (rule conjI [OF lvl conjI [OF st]], rule exI [of _ "low_message ?v"])
      (intro conjI sh sub ch)
qed

theorem end_to_end_low_witness:
  "sorts_by_datetime (sort_key datetime) \<and>
   filtered_df [s1_first, s2_only, s1_second] (Some ''S1'') = [s1_first, s1_second] \<and>
   datetime s1_first < datetime s1_second \<and>
   water_level s1_first = Finite 5 \<and>
   water_level s1_second = Finite (3 / 2) \<and>
   latest_level (sort_key datetime) (filtered_df [s1_first, s2_only, s1_second] (Some ''S1'')) =
     ([], Inr (Finite (3 / 2))) \<and>
   states_shown (dashboard relay_up (sort_key datetime) [s1_first, s2_only, s1_second]
     (Some ''S1'')) = [LOW] \<and>
   (\<exists>m. alerts_shown (dashboard relay_up (sort_key datetime) [s1_first, s2_only, s1_second]
           (Some ''S1'')) = [(LOW, m)] \<and>
        sublist ''1.50'' m \<and>
        channel_calls (dashboard relay_up (sort_key datetime) [s1_first, s2_only, s1_second]
           (Some ''S1'')) =
          [Call_send_email_alert m, Call_send_sms_alert m ''+91XXXXXXXXXX''])"
proof -
  have f: "filtered_df [s1_first, s2_only, s1_second] (Some ''S1'') = [s1_first, s1_second]"
    by (simp add: filtered_df_def s1_first_def s2_only_def s1_second_def)
  have t: "datetime s1_first < datetime s1_second"
    by (simp add: s1_first_def s1_second_def)
  have a: "water_level s1_first = Finite 5"
    by (simp add: s1_first_def)
  have b: "water_level s1_second = Finite (3 / 2)"
    by (simp add: s1_second_def)
  show ?thesis
    by (rule conjI [OF sort_key_sorts conjI [OF f conjI [OF t conjI [OF a conjI [OF b
          end_to_end_low [OF sort_key_sorts f t a b]]]]]])
qed

subsection \<open>Station isolation\<close>

text \<open>
  C9. Two files whose rows of the selected station are the same, in the same order, give
  the same run: the same state and message shown and the same notification calls,
  whatever the rows of the other stations are.
\<close>

theorem station_isolation:
  assumes "filtered_df df1 selected_station = filtered_df df2 selected_station"
  shows "dashboard w srt df1 selected_station = dashboard w srt df2 selected_station \<and>
         alerts_shown (dashboard w srt df1 selected_station) =
           alerts_shown (dashboard w srt df2 selected_station) \<and>
         channel_calls (dashboard w srt df1 selected_station) =
           channel_calls (dashboard w srt df2 selected_station)"
  using assms by (simp add: dashboard_def)

theorem station_isolation_witness:
  "filtered_df [s1_first, s2_only, s1_second] (Some ''S1'') =
     filtered_df [s1_first, s1_second] (Some ''S1'') \<and>
   dashboard relay_up (sort_key datetime) [s1_first, s2_only, s1_second] (Some ''S1'') =
     dashboard relay_up (sort_key datetime) [s1_first, s1_second] (Some ''S1'') \<and>
   alerts_shown (dashboard relay_up (sort_key datetime) [s1_first, s2_only, s1_second] (Some ''S1'')) =
     alerts_shown (dashboard relay_up (sort_key datetime) [s1_first, s1_second] (Some ''S1'')) \<and>
   channel_calls (dashboard relay_up (sort_key datetime) [s1_first, s2_only, s1_second] (Some ''S1'')) =
     channel_calls (dashboard relay_up (sort_key datetime) [s1_first, s1_second] (Some ''S1''))"
proof -
  have h: "filtered_df [s1_first, s2_only, s1_second] (Some ''S1'') =
     filtered_df [s1_first, s1_second] (Some ''S1'')"
    by (simp add: filtered_df_def s1_first_def s2_only_def s1_second_def)
  show ?thesis
    by (rule conjI [OF h station_isolation [OF h]])
qed

subsection \<open>Order of the channels\<close>

text \<open>
  C10. On every LOW or HIGH level, \<open>send_email_alert\<close> is called before
  \<open>send_sms_alert\<close>, with the same message; the SMTP connection is attempted between the
  two calls and the POST to the gateway comes after the second.
\<close>

theorem email_before_sms:
  assumes "float_less v LOW_THRESHOLD \<or> float_greater v HIGH_THRESHOLD"
  shows "\<exists>pre m mid post.
           fst (alert_chain w v) =
             pre @ Call_send_email_alert m # mid @
             Call_send_sms_alert m ''+91XXXXXXXXXX'' # post \<and>
           filter is_channel_call pre = [] \<and>
           filter is_channel_call mid = [] \<and>
           filter is_channel_call post = [] \<and>
           Smtp_connect ''smtp.gmail.com'' 587 \<in> set mid \<and>
           sms_request m ''+91XXXXXXXXXX'' \<in> set post"
proof -
  from anomaly_shape [OF assms, of w] obtain ev m es1 es2 where eq: "alert_chain w v =
       (ev # Call_send_email_alert m # Smtp_connect ''smtp.gmail.com'' 587 # es1 @
        Call_send_sms_alert m ''+91XXXXXXXXXX'' # sms_request m ''+91XXXXXXXXXX'' # es2,
        Inr ())"
    and ev: "\<not> is_channel_call ev"
    and q1: "\<forall>e \<in> set es1. quiet e" and q2: "\<forall>e \<in> set es2. quiet e"
    by blast
  let ?mid = "Smtp_connect ''smtp.gmail.com'' 587 # es1"
  let ?post = "sms_request m ''+91XXXXXXXXXX'' # es2"
  have 1: "fst (alert_chain w v) =
      [ev] @ Call_send_email_alert m # ?mid @ Call_send_sms_alert m ''+91XXXXXXXXXX'' # ?post"
    by (simp add: eq)
  have 2: "filter is_channel_call [ev] = []"
    using ev by simp
  have 3: "filter is_channel_call ?mid = []"
    by (simp add: filter_quiet [OF q1])
  have 4: "filter is_channel_call ?post = []"
    by (simp add: filter_quiet [OF q2] sms_request_def)
  have 5: "Smtp_connect ''smtp.gmail.com'' 587 \<in> set ?mid"
    by simp
  have 6: "sms_request m ''+91XXXXXXXXXX'' \<in> set ?post"
    by simp
  show ?thesis
    by (rule exI [of _ "[ev]"], rule exI [of _ m], rule exI [of _ ?mid],
        rule exI [of _ ?post]) (intro conjI 1 2 3 4 5 6)
qed

theorem email_before_sms_witness:
  "float_greater (Finite 11) HIGH_THRESHOLD \<and>
   (\<exists>pre m mid post.
      fst (alert_chain relay_up (Finite 11)) =
        pre @ Call_send_email_alert m # mid @
        Call_send_sms_alert m ''+91XXXXXXXXXX'' # post \<and>
      filter is_channel_call pre = [] \<and>
      filter is_channel_call mid = [] \<and>
      filter is_channel_call post = [] \<and>
      Smtp_connect ''smtp.gmail.com'' 587 \<in> set mid \<and>
      sms_request m ''+91XXXXXXXXXX'' \<in> set post)"
proof -
  have h: "float_greater (Finite 11) HIGH_THRESHOLD"
    by (simp add: float_greater_def float_less_def HIGH_THRESHOLD_def)
  show ?thesis
    by (rule conjI [OF h email_before_sms [OF disjI2 [OF h]]])
qed

end
